theory Spec2Isabelle
  imports Main "HOL-Library.Word"
begin

section \<open>Slice unpacking with symbolic integers\<close>

text \<open>
  A shallow embedding of \<^verbatim>\<open>__PySlice_Unpack\<close> from
  \<^verbatim>\<open>torch/csrc/autograd/python_variable_indexing.h\<close>: the function reads the three
  fields of a Python slice object and returns them as three \<^verbatim>\<open>c10::SymInt\<close> values, or
  raises through \<^verbatim>\<open>TORCH_CHECK\<close>.
\<close>

subsection \<open>Platform integers\<close>

text \<open>
  \<^verbatim>\<open>Py_ssize_t\<close> is the signed platform index type. It is fixed here to 64 bits, the
  width of the integer a \<^verbatim>\<open>c10::SymInt\<close> holds. Comparisons are the signed ones
  (\<open><s\<close>, \<open>\<le>s\<close>); unary minus wraps around as the machine's does.
\<close>

type_synonym Py_ssize_t = "64 word"

definition PY_SSIZE_T_MAX :: Py_ssize_t where
  "PY_SSIZE_T_MAX = 0x7FFFFFFFFFFFFFFF"

definition PY_SSIZE_T_MIN :: Py_ssize_t where
  "PY_SSIZE_T_MIN = - PY_SSIZE_T_MAX - 1"

subsection \<open>Symbolic integers and the result structure\<close>

text \<open>
  Modelled from the spec: \<^verbatim>\<open>c10::SymInt\<close> (\<^verbatim>\<open>c10/core/SymInt.h\<close>) is not among the
  sources. The spec describes it as a value that is either a concrete platform integer or
  an opaque deferred integer, constructible from a platform integer, with the queries
  \<^verbatim>\<open>is_symbolic()\<close> and \<^verbatim>\<open>expect_int()\<close>, the latter failing on a deferred value.
  A deferred integer is identified by its node.
\<close>

type_synonym SymNode = nat

datatype SymInt = Concrete Py_ssize_t | Symbolic SymNode

fun is_symbolic :: "SymInt \<Rightarrow> bool" where
  "is_symbolic (Concrete i) = False"
| "is_symbolic (Symbolic n) = True"

text \<open>\<^verbatim>\<open>struct UnpackedSlice { c10::SymInt start; c10::SymInt stop; c10::SymInt step; }\<close>\<close>

record UnpackedSlice =
  start :: SymInt
  stop :: SymInt
  step :: SymInt

subsection \<open>Python objects\<close>

text \<open>
  The fields of a slice object are arbitrary Python objects. The code distinguishes
  \<^verbatim>\<open>Py_None\<close>, instances of the \<^verbatim>\<open>SymInt\<close> class (which wrap a node), and everything
  else, which it hands to the index coercion. Of everything else two representatives are
  kept: Python integers (unbounded) and floats (which are not indices; their value plays
  no role).
\<close>

datatype PyObject = Py_None | PyLong int | PyFloat | PySymInt SymNode

text \<open>\<^verbatim>\<open>PySliceObject\<close>: the fields \<^verbatim>\<open>r->start\<close>, \<^verbatim>\<open>r->stop\<close>, \<^verbatim>\<open>r->step\<close>.\<close>

record PySliceObject =
  start :: PyObject
  stop :: PyObject
  step :: PyObject

text \<open>\<^verbatim>\<open>py::isinstance(v, torch::get_symint_class())\<close>\<close>

fun isinstance_SymInt :: "PyObject \<Rightarrow> bool" where
  "isinstance_SymInt (PySymInt n) = True"
| "isinstance_SymInt v = False"

subsection \<open>Errors\<close>

text \<open>
  Every \<^verbatim>\<open>TORCH_CHECK\<close> of the function has its own message; the error value records
  which one was raised, under the names of the spec's taxonomy:
  \<^item> \<open>UnsupportedSymbolicStep\<close>: "Slicing step can't be symint";
  \<^item> \<open>IndexConversionError Step\<close>: "Failed parsing slicing step to integer",
    \<open>IndexConversionError Start\<close>: "Failed parsing slicing start index to integer",
    \<open>IndexConversionError Stop\<close>: "Failed parsing slicing stop index to integer";
  \<^item> \<open>ZeroStepError\<close>: "Slicing step size can't be zero";
  \<^item> \<open>SymbolicStepDefaultError Start\<close>: "Can't use symbolic step size to determine
    slicing start index", \<open>SymbolicStepDefaultError Stop\<close>: the same for the stop index;
  \<^item> \<open>ExpectIntError\<close>: \<^verbatim>\<open>expect_int()\<close> called on a deferred integer.
\<close>

datatype field = Start | Stop | Step

datatype error =
    UnsupportedSymbolicStep
  | IndexConversionError field
  | ZeroStepError
  | SymbolicStepDefaultError field
  | ExpectIntError

fun expect_int :: "SymInt \<Rightarrow> error + Py_ssize_t" where
  "expect_int (Concrete i) = Inr i"
| "expect_int (Symbolic n) = Inl ExpectIntError"

text \<open>
  Modelled from the spec: the macro \<^verbatim>\<open>TORCH_CHECK\<close> (\<^verbatim>\<open>c10/util/Exception.h\<close>) is not
  among the sources. The spec has every failure abort the whole call at once, and the
  uses at the start and stop fields (\<^verbatim>\<open>TORCH_CHECK(result, "Failed parsing ...")\<close> on the
  success flag of the coercion, \<^verbatim>\<open>TORCH_CHECK(!step_sym.is_symbolic(), ...)\<close> right before
  \<^verbatim>\<open>expect_int()\<close>) fix its reading: \<^verbatim>\<open>TORCH_CHECK(cond, msg)\<close> raises \<open>msg\<close> unless
  \<open>cond\<close> holds. The third argument is the rest of the function.
\<close>

definition TORCH_CHECK :: "bool \<Rightarrow> error \<Rightarrow> error + 'a \<Rightarrow> error + 'a" where
  "TORCH_CHECK cond msg rest = (if cond then rest else Inl msg)"

subsection \<open>The index coercion\<close>

text \<open>
  \<^verbatim>\<open>_PyEval_SliceIndex(v, &x)\<close> belongs to the Python runtime, not to this code, and is a
  parameter \<open>coerce\<close> of the model. The runtime keeps an error indicator (the pending
  exception of the thread), which a failed call sets, which nothing in this function
  clears, and which a later call reads. So the call is a function of the runtime's state
  \<open>es\<close> and of the object: \<open>coerce es v = (Some i, es')\<close> when the call returns true
  after storing \<open>i\<close> in \<open>x\<close>, and \<open>coerce es v = (None, es')\<close> when it returns false
  and leaves \<open>x\<close> as it was; \<open>es'\<close> is the runtime's state after the call. The type
  \<open>'e\<close> of the state is left open.

  The function below is the call with its out-parameter: it takes the content of \<open>x\<close>
  before the call and returns the flag and the content of \<open>x\<close> after, with the new
  state. The locals \<^verbatim>\<open>step\<close>, \<^verbatim>\<open>start\<close> and \<^verbatim>\<open>stop\<close> passed as \<open>x\<close> (\<open>step_i\<close>,
  \<open>start_i\<close>, \<open>stop_i\<close> below) are declared without an initialiser, so their content
  before the call is whatever the stack held, a further parameter \<open>uninit\<close> of the
  model.
\<close>

definition PyEval_SliceIndex ::
  "('e \<Rightarrow> PyObject \<Rightarrow> Py_ssize_t option \<times> 'e) \<Rightarrow> 'e \<Rightarrow> PyObject \<Rightarrow> Py_ssize_t
     \<Rightarrow> (bool \<times> Py_ssize_t) \<times> 'e" where
  "PyEval_SliceIndex coerce es v x =
     (case coerce es v of
        (Some i, es') \<Rightarrow> ((True, i), es')
      | (None, es') \<Rightarrow> ((False, x), es'))"

text \<open>
  Modelled from the spec: a concrete integer-index coercion, for evaluating the model on
  concrete inputs. By the spec, it produces a platform signed integer, may clamp,
  accepts integers and objects offering an integer conversion, and fails on
  floating-point and other non-integer values. Whether a \<^verbatim>\<open>SymInt\<close> object offers an
  integer conversion is not said, so \<open>sym_index\<close> gives the integer a node converts to,
  if any.

  The state is one flag, whether an exception is pending. The spec is silent on it; the
  rules are the runtime's. A failure leaves an exception pending. The runtime reports
  failure by the value -1 together with a pending exception, so while an exception is
  pending an object that converts to -1 is taken for a failure, and \<open>x\<close> is not
  written. An integer out of range first raises an overflow error in place of whatever
  was pending, which the clamping then clears.
\<close>

definition convert_index :: "bool \<Rightarrow> int \<Rightarrow> Py_ssize_t option \<times> bool" where
  "convert_index pending n =
     (if n < - (2 ^ 63) then (Some PY_SSIZE_T_MIN, False)
      else if 2 ^ 63 - 1 < n then (Some PY_SSIZE_T_MAX, False)
      else if n = - 1 \<and> pending then (None, True)
      else (Some (word_of_int n), pending))"

fun index_coercion ::
  "(SymNode \<Rightarrow> int option) \<Rightarrow> bool \<Rightarrow> PyObject \<Rightarrow> Py_ssize_t option \<times> bool" where
  "index_coercion sym_index pending Py_None = (None, True)"
| "index_coercion sym_index pending (PyLong n) = convert_index pending n"
| "index_coercion sym_index pending PyFloat = (None, True)"
| "index_coercion sym_index pending (PySymInt s) =
     (case sym_index s of
        None \<Rightarrow> (None, True)
      | Some k \<Rightarrow> convert_index pending k)"

subsection \<open>The function\<close>

text \<open>
  Lines 30 to 51, the value of \<^verbatim>\<open>step_sym\<close>, with the runtime's state after the block:
  \<^verbatim>\<open>
  if (r->step == Py_None) {
    step_sym = c10::SymInt(1);
  } else {
    TORCH_CHECK(
        py::isinstance(r->step, torch::get_symint_class()),
        "Slicing step can't be symint")
    Py_ssize_t step;
    bool result = _PyEval_SliceIndex(r->step, &step);
    TORCH_CHECK(!result, "Failed parsing slicing step to integer")
    TORCH_CHECK(step != 0, "Slicing step size can't be zero");
    if (step < -PY_SSIZE_T_MAX) {
      step = -PY_SSIZE_T_MAX;
    }
    step_sym = c10::SymInt(step);
  }
  \<close>
\<close>

definition step_sym ::
  "('e \<Rightarrow> PyObject \<Rightarrow> Py_ssize_t option \<times> 'e) \<Rightarrow> 'e \<Rightarrow> Py_ssize_t \<Rightarrow> PyObject
     \<Rightarrow> error + SymInt \<times> 'e" where
  "step_sym coerce es uninit v =
     (if v = Py_None then Inr (Concrete 1, es)
      else
        TORCH_CHECK (isinstance_SymInt v) UnsupportedSymbolicStep
         (case PyEval_SliceIndex coerce es v uninit of ((result, step_i), es') \<Rightarrow>
            TORCH_CHECK (\<not> result) (IndexConversionError Step)
             (TORCH_CHECK (step_i \<noteq> 0) ZeroStepError
               (Inr (Concrete
                  (if step_i <s - PY_SSIZE_T_MAX then - PY_SSIZE_T_MAX else step_i), es')))))"

text \<open>
  Lines 53 to 67, the value of \<^verbatim>\<open>start_sym\<close>, given the value \<open>st\<close> of
  \<^verbatim>\<open>step_sym\<close>:
  \<^verbatim>\<open>
  if (py::isinstance(r->start, torch::get_symint_class())) {
    auto new_obj = py::reinterpret_borrow<py::object>(r->start);
    start_sym = new_obj.cast<c10::SymInt>();
  } else if (r->start == Py_None) {
    TORCH_CHECK(
        !step_sym.is_symbolic(),
        "Can't use symbolic step size to determine slicing start index")
    start_sym = c10::SymInt(step_sym.expect_int() < 0 ? PY_SSIZE_T_MAX : 0);
  } else {
    Py_ssize_t start;
    bool result = _PyEval_SliceIndex(r->start, &start);
    TORCH_CHECK(result, "Failed parsing slicing start index to integer")
    start_sym = c10::SymInt(start);
  }
  \<close>
  The cast of a \<^verbatim>\<open>SymInt\<close> object yields the symbolic integer of its node.
\<close>

definition start_sym ::
  "('e \<Rightarrow> PyObject \<Rightarrow> Py_ssize_t option \<times> 'e) \<Rightarrow> 'e \<Rightarrow> Py_ssize_t \<Rightarrow> SymInt \<Rightarrow> PyObject
     \<Rightarrow> error + SymInt \<times> 'e" where
  "start_sym coerce es uninit st v =
     (case v of
        PySymInt n \<Rightarrow> Inr (Symbolic n, es)
      | Py_None \<Rightarrow>
          TORCH_CHECK (\<not> is_symbolic st) (SymbolicStepDefaultError Start)
           (case expect_int st of
              Inl e \<Rightarrow> Inl e
            | Inr i \<Rightarrow> Inr (Concrete (if i <s 0 then PY_SSIZE_T_MAX else 0), es))
      | _ \<Rightarrow>
          (case PyEval_SliceIndex coerce es v uninit of ((result, start_i), es') \<Rightarrow>
             TORCH_CHECK result (IndexConversionError Start) (Inr (Concrete start_i, es'))))"

text \<open>
  Lines 69 to 84, the value of \<^verbatim>\<open>stop_sym\<close>: as for the start, with the defaults
  \<^verbatim>\<open>step_sym.expect_int() < 0 ? PY_SSIZE_T_MIN : PY_SSIZE_T_MAX\<close>.
\<close>

definition stop_sym ::
  "('e \<Rightarrow> PyObject \<Rightarrow> Py_ssize_t option \<times> 'e) \<Rightarrow> 'e \<Rightarrow> Py_ssize_t \<Rightarrow> SymInt \<Rightarrow> PyObject
     \<Rightarrow> error + SymInt \<times> 'e" where
  "stop_sym coerce es uninit st v =
     (case v of
        PySymInt n \<Rightarrow> Inr (Symbolic n, es)
      | Py_None \<Rightarrow>
          TORCH_CHECK (\<not> is_symbolic st) (SymbolicStepDefaultError Stop)
           (case expect_int st of
              Inl e \<Rightarrow> Inl e
            | Inr i \<Rightarrow> Inr (Concrete (if i <s 0 then PY_SSIZE_T_MIN else PY_SSIZE_T_MAX), es))
      | _ \<Rightarrow>
          (case PyEval_SliceIndex coerce es v uninit of ((result, stop_i), es') \<Rightarrow>
             TORCH_CHECK result (IndexConversionError Stop) (Inr (Concrete stop_i, es'))))"

text \<open>
  \<^verbatim>\<open>__PySlice_Unpack\<close>: the three blocks in the order of the source, each starting in
  the runtime state the one before left, the first raised error ending the call, then
  \<^verbatim>\<open>return UnpackedSlice{start_sym, stop_sym, step_sym}\<close>. \<open>es\<close> is the runtime's
  state when the function is entered.
\<close>

definition PySlice_Unpack ::
  "('e \<Rightarrow> PyObject \<Rightarrow> Py_ssize_t option \<times> 'e) \<Rightarrow> 'e \<Rightarrow> Py_ssize_t \<Rightarrow> PySliceObject
     \<Rightarrow> error + UnpackedSlice" where
  "PySlice_Unpack coerce es uninit r =
     (case step_sym coerce es uninit (step r) of
        Inl e \<Rightarrow> Inl e
      | Inr (st, es1) \<Rightarrow>
         (case start_sym coerce es1 uninit st (start r) of
            Inl e \<Rightarrow> Inl e
          | Inr (sa, es2) \<Rightarrow>
             (case stop_sym coerce es2 uninit st (stop r) of
                Inl e \<Rightarrow> Inl e
              | Inr (so, es3) \<Rightarrow>
                  Inr \<lparr>UnpackedSlice.start = sa, stop = so, step = st\<rparr>)))"

subsection \<open>Notions used by the properties\<close>

text \<open>A behaviour of \<open>sym_index\<close> for the concrete coercion: no node converts to an integer.\<close>

definition sym_index_none :: "SymNode \<Rightarrow> int option" where
  "sym_index_none s = None"

section \<open>Properties\<close>

subsection \<open>The platform limits\<close>

text \<open>\<^verbatim>\<open>static_assert(PY_SSIZE_T_MIN + 1 <= -PY_SSIZE_T_MAX, "Build failed")\<close> holds.\<close>

lemma static_assert_holds: "PY_SSIZE_T_MIN + 1 \<le>s - PY_SSIZE_T_MAX"
  by (simp add: PY_SSIZE_T_MIN_def PY_SSIZE_T_MAX_def)

lemma MIN_sless: "PY_SSIZE_T_MIN <s - PY_SSIZE_T_MAX"
  by (simp add: PY_SSIZE_T_MIN_def PY_SSIZE_T_MAX_def word_sless_alt)

lemma neg_MAX_neq_MIN: "- PY_SSIZE_T_MAX \<noteq> PY_SSIZE_T_MIN"
  by (simp add: PY_SSIZE_T_MIN_def PY_SSIZE_T_MAX_def)

lemma neg_MAX_neq_0: "- PY_SSIZE_T_MAX \<noteq> 0"
  by (simp add: PY_SSIZE_T_MAX_def)

lemma clamped_step:
  "x \<noteq> 0 \<Longrightarrow>
   (if x <s - PY_SSIZE_T_MAX then - PY_SSIZE_T_MAX else x) \<noteq> 0 \<and>
   (if x <s - PY_SSIZE_T_MAX then - PY_SSIZE_T_MAX else x) \<noteq> PY_SSIZE_T_MIN"
  using MIN_sless neg_MAX_neq_MIN neg_MAX_neq_0 by auto

subsection \<open>The step block, by the kind of the step object\<close>

lemma step_sym_None: "step_sym coerce es uninit Py_None = Inr (Concrete 1, es)"
  by (simp add: step_sym_def)

text \<open>
  A step that is not a \<^verbatim>\<open>SymInt\<close> object fails the first check, whose condition is
  \<^verbatim>\<open>py::isinstance(r->step, torch::get_symint_class())\<close>.
\<close>

lemma step_sym_PyLong: "step_sym coerce es uninit (PyLong n) = Inl UnsupportedSymbolicStep"
  by (simp add: step_sym_def TORCH_CHECK_def)

lemma step_sym_PyFloat: "step_sym coerce es uninit PyFloat = Inl UnsupportedSymbolicStep"
  by (simp add: step_sym_def TORCH_CHECK_def)

text \<open>
  A \<^verbatim>\<open>SymInt\<close> step passes the first check. The second check is on \<^verbatim>\<open>!result\<close>: it
  raises when the coercion succeeded, and lets the call go on with the never-written
  local when the coercion failed.
\<close>

lemma step_sym_PySymInt:
  "step_sym coerce es uninit (PySymInt n) =
     (case coerce es (PySymInt n) of
        (Some i, es') \<Rightarrow> Inl (IndexConversionError Step)
      | (None, es') \<Rightarrow>
          if uninit = 0 then Inl ZeroStepError
          else Inr (Concrete (if uninit <s - PY_SSIZE_T_MAX then - PY_SSIZE_T_MAX else uninit),
                    es'))"
  by (simp add: step_sym_def TORCH_CHECK_def PyEval_SliceIndex_def
      split: prod.split option.split)

text \<open>Whatever the step block returns is a concrete integer, not zero and not the minimum.\<close>

lemma step_sym_Inr:
  assumes "step_sym coerce es uninit v = Inr (st, es')"
  shows "\<exists>i. st = Concrete i \<and> i \<noteq> 0 \<and> i \<noteq> PY_SSIZE_T_MIN"
proof (cases v)
  case Py_None
  with assms have "st = Concrete 1" by (simp add: step_sym_None)
  moreover have "(1 :: Py_ssize_t) \<noteq> PY_SSIZE_T_MIN"
    by (simp add: PY_SSIZE_T_MIN_def PY_SSIZE_T_MAX_def)
  ultimately show ?thesis by simp
next
  case (PyLong n)
  with assms show ?thesis by (simp add: step_sym_PyLong)
next
  case PyFloat
  with assms show ?thesis by (simp add: step_sym_PyFloat)
next
  case (PySymInt n)
  with assms have ne: "uninit \<noteq> 0"
    and st: "st = Concrete (if uninit <s - PY_SSIZE_T_MAX then - PY_SSIZE_T_MAX else uninit)"
    by (simp_all add: step_sym_PySymInt split: prod.splits option.splits if_splits)
  from clamped_step [OF ne] st show ?thesis by blast
qed


subsection \<open>The start and stop blocks under a concrete step\<close>

lemma start_sym_None:
  "start_sym coerce es uninit (Concrete i) Py_None
     = Inr (Concrete (if i <s 0 then PY_SSIZE_T_MAX else 0), es)"
  by (simp add: start_sym_def TORCH_CHECK_def)

lemma stop_sym_None:
  "stop_sym coerce es uninit (Concrete i) Py_None
     = Inr (Concrete (if i <s 0 then PY_SSIZE_T_MIN else PY_SSIZE_T_MAX), es)"
  by (simp add: stop_sym_def TORCH_CHECK_def)

lemma start_sym_PySymInt: "start_sym coerce es uninit st (PySymInt n) = Inr (Symbolic n, es)"
  by (simp add: start_sym_def)

lemma stop_sym_PySymInt: "stop_sym coerce es uninit st (PySymInt n) = Inr (Symbolic n, es)"
  by (simp add: stop_sym_def)

text \<open>On any other object the outcome is the coercion's.\<close>

lemma start_sym_coerced:
  "v \<noteq> Py_None \<Longrightarrow> \<not> isinstance_SymInt v \<Longrightarrow>
   start_sym coerce es uninit st v =
     (case coerce es v of
        (Some x, es') \<Rightarrow> Inr (Concrete x, es')
      | (None, es') \<Rightarrow> Inl (IndexConversionError Start))"
  by (cases v)
     (simp_all add: start_sym_def TORCH_CHECK_def PyEval_SliceIndex_def
        split: prod.split option.split)

lemma stop_sym_coerced:
  "v \<noteq> Py_None \<Longrightarrow> \<not> isinstance_SymInt v \<Longrightarrow>
   stop_sym coerce es uninit st v =
     (case coerce es v of
        (Some x, es') \<Rightarrow> Inr (Concrete x, es')
      | (None, es') \<Rightarrow> Inl (IndexConversionError Stop))"
  by (cases v)
     (simp_all add: stop_sym_def TORCH_CHECK_def PyEval_SliceIndex_def
        split: prod.split option.split)

lemma start_sym_Concrete_Inl:
  assumes "start_sym coerce es uninit (Concrete i) v = Inl e"
  shows "e = IndexConversionError Start"
proof (cases "v = Py_None \<or> isinstance_SymInt v")
  case True
  with assms show ?thesis
    by (cases v) (simp_all add: start_sym_None start_sym_PySymInt)
next
  case False
  with assms show ?thesis
    by (simp add: start_sym_coerced split: prod.splits option.splits)
qed

lemma stop_sym_Concrete_Inl:
  assumes "stop_sym coerce es uninit (Concrete i) v = Inl e"
  shows "e = IndexConversionError Stop"
proof (cases "v = Py_None \<or> isinstance_SymInt v")
  case True
  with assms show ?thesis
    by (cases v) (simp_all add: stop_sym_None stop_sym_PySymInt)
next
  case False
  with assms show ?thesis
    by (simp add: stop_sym_coerced split: prod.splits option.splits)
qed

subsection \<open>The whole call\<close>

lemma PySlice_Unpack_step_Inl:
  "step_sym coerce es uninit (step r) = Inl e \<Longrightarrow> PySlice_Unpack coerce es uninit r = Inl e"
  by (simp add: PySlice_Unpack_def)

lemma PySlice_Unpack_step_Inr:
  "step_sym coerce es uninit (step r) = Inr (st, es1) \<Longrightarrow>
   PySlice_Unpack coerce es uninit r =
     (case start_sym coerce es1 uninit st (start r) of
        Inl e \<Rightarrow> Inl e
      | Inr (sa, es2) \<Rightarrow>
         (case stop_sym coerce es2 uninit st (stop r) of
            Inl e \<Rightarrow> Inl e
          | Inr (so, es3) \<Rightarrow> Inr \<lparr>UnpackedSlice.start = sa, stop = so, step = st\<rparr>))"
  by (simp add: PySlice_Unpack_def)

lemma PySlice_Unpack_PyLong_step:
  "PySlice_Unpack coerce es uninit \<lparr>start = a, stop = b, step = PyLong n\<rparr>
     = Inl UnsupportedSymbolicStep"
  by (simp add: PySlice_Unpack_step_Inl step_sym_PyLong)

lemma PySlice_Unpack_PyFloat_step:
  "PySlice_Unpack coerce es uninit \<lparr>start = a, stop = b, step = PyFloat\<rparr>
     = Inl UnsupportedSymbolicStep"
  by (simp add: PySlice_Unpack_step_Inl step_sym_PyFloat)


text \<open>
  The runtime's state matters once the step block has gone on after a failed coercion:
  with the exception of that failure pending, the start -1 is taken for a failed
  conversion, where after an absent step it is converted.
\<close>

lemma pending_exception_start:
  "PySlice_Unpack (index_coercion sym_index_none) False 5
        \<lparr>start = PyLong (- 1), stop = Py_None, step = PySymInt 0\<rparr>
     = Inl (IndexConversionError Start)
   \<and> PySlice_Unpack (index_coercion sym_index_none) False 5
        \<lparr>start = PyLong (- 1), stop = Py_None, step = Py_None\<rparr>
     = Inr \<lparr>UnpackedSlice.start = Concrete (- 1), stop = Concrete PY_SSIZE_T_MAX,
            step = Concrete 1\<rparr>"
  by (simp add: PySlice_Unpack_def step_sym_PySymInt step_sym_None start_sym_coerced
      stop_sym_None sym_index_none_def convert_index_def word_sless_alt)

section \<open>The claims\<close>

subsection \<open>C1: a symbolic step\<close>

text \<open>
  C1 says that every slice whose step is a symbolic integer fails with
  \<open>UnsupportedSymbolicStep\<close> ("Slicing step can't be symint"), whatever start and stop
  are. The code does the opposite: the check at lines 33 to 35 asks that the step
  \<^emph>\<open>is\<close> a \<^verbatim>\<open>SymInt\<close> object, so a symbolic step passes it. The call then ends
  with the step's conversion error when the coercion succeeds, and otherwise goes on
  with the never-written local; in no case does it raise \<open>UnsupportedSymbolicStep\<close>.
\<close>

theorem symbolic_step_not_rejected:
  "step_sym coerce es uninit (PySymInt n) =
     (case coerce es (PySymInt n) of
        (Some i, es') \<Rightarrow> Inl (IndexConversionError Step)
      | (None, es') \<Rightarrow>
          if uninit = 0 then Inl ZeroStepError
          else Inr (Concrete (if uninit <s - PY_SSIZE_T_MAX then - PY_SSIZE_T_MAX else uninit),
                    es'))
   \<and> PySlice_Unpack coerce es uninit \<lparr>start = a, stop = b, step = PySymInt n\<rparr>
        \<noteq> Inl UnsupportedSymbolicStep"
proof
  show "step_sym coerce es uninit (PySymInt n) =
     (case coerce es (PySymInt n) of
        (Some i, es') \<Rightarrow> Inl (IndexConversionError Step)
      | (None, es') \<Rightarrow>
          if uninit = 0 then Inl ZeroStepError
          else Inr (Concrete (if uninit <s - PY_SSIZE_T_MAX then - PY_SSIZE_T_MAX else uninit),
                    es'))"
    by (rule step_sym_PySymInt)
next
  let ?r = "\<lparr>start = a, stop = b, step = PySymInt n\<rparr>"
  show "PySlice_Unpack coerce es uninit ?r \<noteq> Inl UnsupportedSymbolicStep"
  proof
    assume fails: "PySlice_Unpack coerce es uninit ?r = Inl UnsupportedSymbolicStep"
    show False
    proof (cases "step_sym coerce es uninit (step ?r)")
      case (Inl e)
      then have "e \<noteq> UnsupportedSymbolicStep"
        by (auto simp: step_sym_PySymInt split: prod.splits option.splits if_splits)
      moreover from PySlice_Unpack_step_Inl [OF Inl] fails have "e = UnsupportedSymbolicStep"
        by simp
      ultimately show False by simp
    next
      case (Inr p)
      then obtain st es1 where step: "step_sym coerce es uninit (step ?r) = Inr (st, es1)"
        by (cases p) simp
      from step_sym_Inr [OF step] obtain i where st: "st = Concrete i" by blast
      note unpack = PySlice_Unpack_step_Inr [OF step]
      show False
      proof (cases "start_sym coerce es1 uninit st (start ?r)")
        case (Inl e)
        then have "PySlice_Unpack coerce es uninit ?r = Inl e"
          by (simp only: unpack sum.case)
        moreover from Inl have "e = IndexConversionError Start"
          unfolding st by (rule start_sym_Concrete_Inl)
        ultimately show False using fails by simp
      next
        case (Inr q)
        then obtain sa es2 where sa: "start_sym coerce es1 uninit st (start ?r) = Inr (sa, es2)"
          by (cases q) simp
        show False
        proof (cases "stop_sym coerce es2 uninit st (stop ?r)")
          case (Inl e)
          then have "PySlice_Unpack coerce es uninit ?r = Inl e"
            by (simp only: unpack sa sum.case prod.case)
          moreover from Inl have "e = IndexConversionError Stop"
            unfolding st by (rule stop_sym_Concrete_Inl)
          ultimately show False using fails by simp
        next
          case (Inr q')
          then obtain so es3 where "stop_sym coerce es2 uninit st (stop ?r) = Inr (so, es3)"
            by (cases q') simp
          then have "PySlice_Unpack coerce es uninit ?r
                       = Inr \<lparr>UnpackedSlice.start = sa, stop = so, step = st\<rparr>"
            by (simp only: unpack sa sum.case prod.case)
          with fails show False by simp
        qed
      qed
    qed
  qed
qed

subsection \<open>C2: conversion errors\<close>

text \<open>
  C2 says that a present, non-symbolic start, stop or step that cannot be converted
  makes the call fail with \<open>IndexConversionError\<close>. On the code a float step, which
  the coercion rejects, never reaches the coercion: not being a \<^verbatim>\<open>SymInt\<close> object, it
  fails the first check of the step block and the call raises "Slicing step can't be
  symint". The same check rejects the integer step 2, so that a float start under a
  valid step is not reported either: the call raises "Slicing step can't be symint"
  before the start is converted.
\<close>

theorem unconvertible_field_reports_symint_error:
  "fst (index_coercion sym_index pending PyFloat) = None
   \<and> PySlice_Unpack (index_coercion sym_index) pending uninit
        \<lparr>start = a, stop = b, step = PyFloat\<rparr>
       = Inl UnsupportedSymbolicStep
   \<and> PySlice_Unpack (index_coercion sym_index) pending uninit
        \<lparr>start = PyFloat, stop = b, step = PyLong 2\<rparr>
       = Inl UnsupportedSymbolicStep"
  by (simp add: PySlice_Unpack_PyFloat_step PySlice_Unpack_PyLong_step)

subsection \<open>C3: a zero step\<close>

text \<open>
  C3 says that a step that converts to the integer 0 fails with \<open>ZeroStepError\<close>, for
  all start and stop. On the code the Python integer 0, not being a \<^verbatim>\<open>SymInt\<close> object,
  fails the first check of the step block: the call raises "Slicing step can't be
  symint" and never reaches the comparison with zero.
\<close>

theorem zero_step_reports_symint_error:
  "PySlice_Unpack coerce es uninit \<lparr>start = a, stop = b, step = PyLong 0\<rparr>
     = Inl UnsupportedSymbolicStep"
  by (rule PySlice_Unpack_PyLong_step)

subsection \<open>C4: defaults of absent fields\<close>

text \<open>
  C4 says that absent fields get the standard defaults: all three absent gives
  (0, MAX_INT, 1), and absent start and stop with step -1 gives (MAX_INT, MIN_INT, -1).
  On the code the first holds, and the second call raises "Slicing step can't be symint":
  no slice with an integer step gets past the first check of the step block, so the
  defaults for a negative step are never produced.
\<close>

theorem defaults_only_for_absent_step:
  "PySlice_Unpack coerce es uninit \<lparr>start = Py_None, stop = Py_None, step = Py_None\<rparr>
     = Inr \<lparr>UnpackedSlice.start = Concrete 0, stop = Concrete PY_SSIZE_T_MAX, step = Concrete 1\<rparr>
   \<and> PySlice_Unpack coerce es uninit \<lparr>start = Py_None, stop = Py_None, step = PyLong (- 1)\<rparr>
     = Inl UnsupportedSymbolicStep"
proof
  show "PySlice_Unpack coerce es uninit \<lparr>start = Py_None, stop = Py_None, step = Py_None\<rparr>
     = Inr \<lparr>UnpackedSlice.start = Concrete 0, stop = Concrete PY_SSIZE_T_MAX, step = Concrete 1\<rparr>"
    by (simp add: PySlice_Unpack_def step_sym_None start_sym_None stop_sym_None
        word_sless_alt)
next
  show "PySlice_Unpack coerce es uninit \<lparr>start = Py_None, stop = Py_None, step = PyLong (- 1)\<rparr>
     = Inl UnsupportedSymbolicStep"
    by (rule PySlice_Unpack_PyLong_step)
qed

subsection \<open>C5: the most negative step\<close>

text \<open>
  C5 says that a step converting to MIN_INT is returned as -(MAX_INT). On the code the
  Python integer \<open>- 2 ^ 63\<close>, which the coercion converts to \<open>PY_SSIZE_T_MIN\<close>, fails
  the first check of the step block like every integer step: the call raises "Slicing
  step can't be symint" and returns no step.
\<close>

theorem MIN_step_rejected:
  "fst (index_coercion sym_index pending (PyLong (- (2 ^ 63)))) = Some PY_SSIZE_T_MIN
   \<and> PySlice_Unpack (index_coercion sym_index) pending uninit
       \<lparr>start = Py_None, stop = Py_None, step = PyLong (- (2 ^ 63))\<rparr>
     = Inl UnsupportedSymbolicStep"
  by (simp add: PySlice_Unpack_PyLong_step convert_index_def PY_SSIZE_T_MIN_def
      PY_SSIZE_T_MAX_def)

subsection \<open>C6: absent bounds under a symbolic step\<close>


subsection \<open>C7: symbolic bounds under a concrete step\<close>

text \<open>
  C7 says that symbolic start and stop with a valid nonzero concrete step are passed
  through unchanged, with the normalised step. On the code the integer step 2 fails the
  first check of the step block, so the call raises "Slicing step can't be symint"
  before start and stop are looked at.
\<close>

theorem symbolic_bounds_concrete_step_rejected:
  "PySlice_Unpack coerce es uninit \<lparr>start = PySymInt m, stop = PySymInt n, step = PyLong 2\<rparr>
     = Inl UnsupportedSymbolicStep"
  by (rule PySlice_Unpack_PyLong_step)

subsection \<open>C8: idempotence\<close>

text \<open>
  C8 says that unpacking a triple of concrete integers with a nonzero step returns the
  triple, so that unpacking again changes nothing. On the code a triple of Python
  integers is not unpacked at all: the integer step fails the first check of the step
  block and the call raises "Slicing step can't be symint".
\<close>

theorem normalized_triple_rejected:
  "PySlice_Unpack coerce es uninit \<lparr>start = PyLong a, stop = PyLong b, step = PyLong c\<rparr>
     = Inl UnsupportedSymbolicStep"
  by (rule PySlice_Unpack_PyLong_step)

subsection \<open>C9: the output invariant\<close>

text \<open>
  C9: whenever the call succeeds, no field of the result is absent: start and stop are
  each a concrete or a symbolic integer, and the step is an integer that is not the
  concrete value 0, and is the concrete 1 when the input step is absent.
\<close>

theorem output_invariant:
  assumes "PySlice_Unpack coerce es uninit r = Inr u"
  shows "(\<exists>i. UnpackedSlice.step u = Concrete i \<and> i \<noteq> 0)
       \<and> (step r = Py_None \<longrightarrow> UnpackedSlice.step u = Concrete 1)
       \<and> (is_symbolic (UnpackedSlice.start u) \<or> (\<exists>i. UnpackedSlice.start u = Concrete i))
       \<and> (is_symbolic (UnpackedSlice.stop u) \<or> (\<exists>i. UnpackedSlice.stop u = Concrete i))"
proof -
  from assms obtain st es1 where st: "step_sym coerce es uninit (step r) = Inr (st, es1)"
    by (cases "step_sym coerce es uninit (step r)") (auto simp: PySlice_Unpack_step_Inl)
  from assms have "UnpackedSlice.step u = st"
    unfolding PySlice_Unpack_step_Inr [OF st]
    by (auto split: sum.splits prod.splits)
  moreover from step_sym_Inr [OF st] obtain i where "st = Concrete i" and "i \<noteq> 0"
    by blast
  moreover have "st = Concrete 1" if "step r = Py_None"
    using st that by (simp add: step_sym_None)
  moreover have "is_symbolic x \<or> (\<exists>i. x = Concrete i)" for x
    by (cases x) simp_all
  ultimately show ?thesis by blast
qed

theorem output_invariant_witness:
  "PySlice_Unpack (index_coercion sym_index_none) False 0
        \<lparr>start = PyLong 3, stop = PySymInt 4, step = Py_None\<rparr>
     = Inr \<lparr>UnpackedSlice.start = Concrete 3, stop = Symbolic 4, step = Concrete 1\<rparr>
   \<and> step \<lparr>start = PyLong 3, stop = PySymInt 4, step = Py_None\<rparr> = Py_None
   \<and> UnpackedSlice.step
        \<lparr>UnpackedSlice.start = Concrete 3, stop = Symbolic 4, step = Concrete 1\<rparr>
       = Concrete 1
   \<and> (1 :: Py_ssize_t) \<noteq> 0"
proof -
  let ?r = "\<lparr>start = PyLong 3, stop = PySymInt 4, step = Py_None\<rparr>"
  let ?u = "\<lparr>UnpackedSlice.start = Concrete 3, stop = Symbolic 4, step = Concrete 1\<rparr>"
  have h: "PySlice_Unpack (index_coercion sym_index_none) False 0 ?r = Inr ?u"
    by (simp add: PySlice_Unpack_def step_sym_None start_sym_coerced stop_sym_PySymInt
        convert_index_def)
  from output_invariant [OF h] h show ?thesis by simp
qed

subsection \<open>C10: the step is validated first\<close>

text \<open>
  C10 says that the step is validated before start and stop, so that when both the step
  and the start are invalid the failure reported is the step's, and the start is not
  examined. On the code a \<^verbatim>\<open>SymInt\<close> step, which the spec rejects, is let through by
  the first check of the step block; when its coercion fails the second check lets it
  through as well, and unless the never-written local holds 0 the step block succeeds.
  With a float start the call then ends with the start's conversion error: the start
  has been examined and its failure is the one reported.
\<close>

theorem symbolic_step_start_error_reported:
  "PySlice_Unpack (index_coercion sym_index_none) pending uninit
        \<lparr>start = PyFloat, stop = b, step = PySymInt n\<rparr>
     = (if uninit = 0 then Inl ZeroStepError else Inl (IndexConversionError Start))"
  by (simp add: PySlice_Unpack_def step_sym_PySymInt start_sym_coerced sym_index_none_def)

end
